theory Spec2Isabelle
  imports Main "HOL-Library.Word"
begin

section \<open>Data model\<close>

text \<open>
  The two MongoDB collections of the repository (\<open>users\<close>, \<open>payments\<close>) are lists of
  documents in natural order. A field that a document may lack is an \<open>option\<close>.

  Timestamps: the code stores \<open>datetime.now().isoformat()\<close> strings and reads them back
  with \<open>datetime.fromisoformat\<close>. A stored timestamp is represented by the instant it
  denotes, an integer number of microseconds since \<open>datetime.min\<close> (the start of year
  1); \<open>None\<close> stands for a field that is missing, null or the empty string (all falsy in
  Python). ISO strings of naive datetimes order lexicographically as the instants do, so
  MongoDB's \<open>$lt\<close> on them is \<open><\<close> here.

  Python's \<open>datetime\<close> ends with year 9999 and \<open>timedelta(days=d)\<close> takes at most
  999999999 days either way; beyond that both raise OverflowError. The admin operation
  that adds a number of days given by the operator checks both. The readings of the
  clock are taken to lie more than 30 days before the end of the range, so that the
  30 days added to a reading in \<open>handle_successful_payment\<close> never overflow.
\<close>

type_synonym timestamp = int

datatype py_error =
    AttributeError
  | TypeError
  | KeyError
  | ValueError
  | OverflowError
  | UnicodeEncodeError

definition datetime_max :: timestamp where
  \<comment> \<open>\<open>datetime.max\<close>, 9999-12-31T23:59:59.999999\<close>
  "datetime_max = 3652059 * 86400000000 - 1"

definition timedelta :: "int \<Rightarrow> int" where
  \<comment> \<open>\<open>timedelta(days=d)\<close> for a \<open>d\<close> in range, in microseconds\<close>
  "timedelta d = d * 86400000000"

definition timedelta_days :: "int \<Rightarrow> py_error + int" where
  \<comment> \<open>\<open>timedelta(days=d)\<close> for any integer \<open>d\<close>\<close>
  "timedelta_days d = (if \<bar>d\<bar> > 999999999 then Inl OverflowError else Inr (timedelta d))"

definition datetime_add_days :: "timestamp \<Rightarrow> int \<Rightarrow> py_error + timestamp" where
  \<comment> \<open>\<open>t + timedelta(days=d)\<close>\<close>
  "datetime_add_days t d =
     (case timedelta_days d of
        Inl e \<Rightarrow> Inl e
      | Inr delta \<Rightarrow>
          if t + delta < 0 \<or> datetime_max < t + delta then Inl OverflowError
          else Inr (t + delta))"

text \<open>
  Text that is hashed (the request body as text, the secret) is a list of Unicode code
  points. Every other string (a header value, a string in the JSON body, a plan name) is
  a HOL string, a sequence of code points below 256. The values of the fields that the
  webhook handler reads from the parsed JSON body are scalars (the gateway sends strings
  and numbers there); arrays, nested objects and floats are left out.
\<close>

datatype jval =
    JNull
  | JBool bool
  | JInt int
  | JStr string

text \<open>Python truthiness of a parsed JSON value (\<open>if not order_id\<close>).\<close>

fun truthy :: "jval \<Rightarrow> bool" where
  "truthy JNull = False"
| "truthy (JBool b) = b"
| "truthy (JInt n) = (n \<noteq> 0)"
| "truthy (JStr s) = (s \<noteq> [])"

text \<open>\<open>d.get(k)\<close> on the parsed JSON object, a dictionary with each key once: \<open>None\<close>
  (here \<open>JNull\<close>) when the key is absent.\<close>

definition dict_get :: "(string \<times> jval) list \<Rightarrow> string \<Rightarrow> jval" where
  "dict_get d k = (case map_of d k of None \<Rightarrow> JNull | Some v \<Rightarrow> v)"

record user =
  user_id :: int
  username :: "string option"
  first_seen :: "timestamp option"
  last_interaction :: "timestamp option"
  subscription_plan :: "string option"
  subscription_start :: "timestamp option"
  subscription_end :: "timestamp option"
  status :: "string option"
  revoked_at :: "timestamp option"
  expired_at :: "timestamp option"

text \<open>
  A payment document as \<open>plan_callback\<close> inserts it and \<open>payment_webhook\<close> updates it
  (the \<open>amount\<close> float is left out; no modelled function reads it).
\<close>

record payment =
  payment_id :: jval
  pay_user_id :: int
  pay_plan :: string
  pay_status :: jval
  created_at :: timestamp
  payment_url :: string
  webhook_data :: "(string \<times> jval) list option"
  updated_at :: "timestamp option"

text \<open>
  Calls made to the Telegram Bot API, in order, and the jobs of the bot process's
  in-memory scheduler (\<open>id\<close>, \<open>run_date\<close>, \<open>user_id\<close>, \<open>plan\<close>).
\<close>

datatype bot_call =
    UnbanChatMember string int
  | BanChatMember string int
  | SendMessage int

type_synonym job = "string \<times> timestamp \<times> int \<times> string"

record system =
  users_collection :: "user list"
  payments_collection :: "payment list"
  bot_calls :: "bot_call list"
  scheduler_jobs :: "job list"

section \<open>Collection operations\<close>

text \<open>
  \<open>find_one\<close> returns the first matching document, \<open>update_one\<close> rewrites the first
  matching document (no upsert) and \<open>update_many\<close> every matching document.
\<close>

definition find_one :: "('a \<Rightarrow> bool) \<Rightarrow> 'a list \<Rightarrow> 'a option" where
  "find_one q ds = List.find q ds"

fun update_one :: "('a \<Rightarrow> bool) \<Rightarrow> ('a \<Rightarrow> 'a) \<Rightarrow> 'a list \<Rightarrow> 'a list" where
  "update_one q f [] = []"
| "update_one q f (d # ds) = (if q d then f d # ds else d # update_one q f ds)"

definition update_many :: "('a \<Rightarrow> bool) \<Rightarrow> ('a \<Rightarrow> 'a) \<Rightarrow> 'a list \<Rightarrow> 'a list" where
  "update_many q f ds = map (\<lambda>d. if q d then f d else d) ds"

section \<open>Admin operations (bot\_manager.py)\<close>

text \<open>
  Each operation takes the readings of \<open>datetime.now()\<close> it makes, in call order, and the
  system state, and returns the new state. \<open>BotManager\<close> holds the two collections only:
  it has no Telegram client and no scheduler. Database calls are taken to complete. The
  class has no exception handler: an error (\<open>Inl\<close>) ends the operation before its write.
\<close>

definition extend_subscription :: "timestamp \<Rightarrow> int \<Rightarrow> int \<Rightarrow> system \<Rightarrow> py_error + system" where
  "extend_subscription now uid days s =
     (case find_one (\<lambda>u. user_id u = uid) (users_collection s) of
        None \<Rightarrow> Inr s
      | Some usr \<Rightarrow>
          (case (case subscription_end usr of
                   Some current_end \<Rightarrow> datetime_add_days current_end days
                 | None \<Rightarrow> datetime_add_days now days) of
             Inl e \<Rightarrow> Inl e
           | Inr new_end_date \<Rightarrow>
               Inr (s\<lparr>users_collection :=
                        update_one (\<lambda>u. user_id u = uid)
                          (\<lambda>u. u\<lparr>subscription_end := Some new_end_date, status := Some ''active''\<rparr>)
                          (users_collection s)\<rparr>)))"

definition revoke_access :: "timestamp \<Rightarrow> int \<Rightarrow> system \<Rightarrow> system" where
  "revoke_access now uid s =
     s\<lparr>users_collection :=
         update_one (\<lambda>u. user_id u = uid)
           (\<lambda>u. u\<lparr>status := Some ''revoked'', revoked_at := Some now\<rparr>)
           (users_collection s)\<rparr>"

text \<open>
  \<open>cleanup_expired\<close> reads the clock twice: \<open>now\<close> for the filter and \<open>now'\<close> for
  \<open>expired_at\<close>. A document without \<open>subscription_end\<close> does not match \<open>$lt\<close>.
\<close>

definition cleanup_query :: "timestamp \<Rightarrow> user \<Rightarrow> bool" where
  "cleanup_query now u =
     ((case subscription_end u of None \<Rightarrow> False | Some e \<Rightarrow> e < now)
      \<and> status u = Some ''active'')"

definition cleanup_expired :: "timestamp \<Rightarrow> timestamp \<Rightarrow> system \<Rightarrow> system" where
  "cleanup_expired now now' s =
     s\<lparr>users_collection :=
         update_many (cleanup_query now)
           (\<lambda>u. u\<lparr>status := Some ''expired'', expired_at := Some now'\<rparr>)
           (users_collection s)\<rparr>"

section \<open>Signature verification (webhook\_server.py)\<close>

text \<open>
  \<open>hmac.new(key, msg, hashlib.sha512).digest()\<close> is a library function: it is a
  parameter \<open>hmac_sha512\<close> of the model, from key bytes and message bytes to digest
  bytes. \<open>hexdigest\<close> is lower-case hexadecimal.
\<close>

type_synonym bytes = "8 word list"
type_synonym unicode = "int list"
type_synonym hmac_fun = "bytes \<Rightarrow> bytes \<Rightarrow> bytes"

text \<open>
  \<open>str.encode()\<close> is strict UTF-8: a surrogate raises UnicodeEncodeError (a number
  below 0 or from 0x110000 on is no code point of a Python string; it is refused as
  well). The bytes are computed as numbers below 256 first.
\<close>

definition utf8_encode_char :: "int \<Rightarrow> int list option" where
  "utf8_encode_char n =
     (if n < 0 then None
      else if n < 128 then Some [n]
      else if n < 2048 then Some [192 + n div 64, 128 + n mod 64]
      else if 55296 \<le> n \<and> n \<le> 57343 then None
      else if n < 65536 then Some [224 + n div 4096, 128 + n div 64 mod 64, 128 + n mod 64]
      else if n < 1114112 then
        Some [240 + n div 262144, 128 + n div 4096 mod 64, 128 + n div 64 mod 64, 128 + n mod 64]
      else None)"

fun utf8_encode :: "unicode \<Rightarrow> py_error + int list" where
  "utf8_encode [] = Inr []"
| "utf8_encode (n # ns) =
     (case utf8_encode_char n of
        None \<Rightarrow> Inl UnicodeEncodeError
      | Some bs \<Rightarrow>
          (case utf8_encode ns of
             Inl e \<Rightarrow> Inl e
           | Inr rest \<Rightarrow> Inr (bs @ rest)))"

definition encode :: "unicode \<Rightarrow> py_error + bytes" where
  "encode t = (case utf8_encode t of Inl e \<Rightarrow> Inl e | Inr bs \<Rightarrow> Inr (map of_int bs))"

text \<open>
  \<open>request.get_data(as_text=True)\<close> decodes the raw body as UTF-8 with
  \<open>errors='replace'\<close>: each maximal ill-formed prefix of a sequence becomes U+FFFD
  (65533). A lead byte fixes the range of its second byte, which excludes overlong
  forms, surrogates and code points beyond 0x10FFFF.
\<close>

definition is_cont :: "int \<Rightarrow> bool" where
  "is_cont c = (128 \<le> c \<and> c \<le> 191)"

definition utf8_step :: "int \<Rightarrow> int list \<Rightarrow> int \<times> nat" where
  \<comment> \<open>the code point that starts at the lead byte \<open>b\<close>, and the number of bytes it takes\<close>
  "utf8_step b bs =
     (if b < 128 then (b, 1)
      else if 194 \<le> b \<and> b \<le> 223 then
        (case bs of
           [] \<Rightarrow> (65533, 1)
         | c # bs1 \<Rightarrow>
             if is_cont c then ((b - 192) * 64 + (c - 128), 2)
             else (65533, 1))
      else if 224 \<le> b \<and> b \<le> 239 then
        (case bs of
           [] \<Rightarrow> (65533, 1)
         | c # bs1 \<Rightarrow>
             if (if b = 224 then 160 else 128) \<le> c \<and> c \<le> (if b = 237 then 159 else 191) then
               (case bs1 of
                  [] \<Rightarrow> (65533, 2)
                | d # bs2 \<Rightarrow>
                    if is_cont d then ((b - 224) * 4096 + (c - 128) * 64 + (d - 128), 3)
                    else (65533, 2))
             else (65533, 1))
      else if 240 \<le> b \<and> b \<le> 244 then
        (case bs of
           [] \<Rightarrow> (65533, 1)
         | c # bs1 \<Rightarrow>
             if (if b = 240 then 144 else 128) \<le> c \<and> c \<le> (if b = 244 then 143 else 191) then
               (case bs1 of
                  [] \<Rightarrow> (65533, 2)
                | d # bs2 \<Rightarrow>
                    if is_cont d then
                      (case bs2 of
                         [] \<Rightarrow> (65533, 3)
                       | e # bs3 \<Rightarrow>
                           if is_cont e
                           then ((b - 240) * 262144 + (c - 128) * 4096 + (d - 128) * 64 + (e - 128), 4)
                           else (65533, 3))
                    else (65533, 2))
             else (65533, 1))
      else (65533, 1))"

function utf8_decode_replace :: "int list \<Rightarrow> unicode" where
  "utf8_decode_replace [] = []"
| "utf8_decode_replace (b # bs) =
     (case utf8_step b bs of
        (cp, k) \<Rightarrow> cp # utf8_decode_replace (drop (k - 1) bs))"
  by pat_completeness auto
termination
  by (relation "measure length") auto

definition get_data_as_text :: "bytes \<Rightarrow> unicode" where
  "get_data_as_text body = utf8_decode_replace (map uint body)"

definition hex_digit :: "nat \<Rightarrow> char" where
  "hex_digit n = (if n < 10 then char_of (48 + n) else char_of (87 + n))"

definition hex_byte :: "8 word \<Rightarrow> string" where
  "hex_byte b = [hex_digit (unat b div 16), hex_digit (unat b mod 16)]"

definition hexdigest :: "bytes \<Rightarrow> string" where
  "hexdigest bs = concat (map hex_byte bs)"

definition is_ascii :: "string \<Rightarrow> bool" where
  "is_ascii s = list_all (\<lambda>c. (of_char c :: nat) < 128) s"

text \<open>\<open>hmac.compare_digest\<close> on two \<open>str\<close> raises TypeError unless both are ASCII.\<close>

definition compare_digest :: "string \<Rightarrow> string \<Rightarrow> py_error + bool" where
  "compare_digest a b = (if is_ascii a \<and> is_ascii b then Inr (a = b) else Inl TypeError)"

text \<open>
  \<open>secret\<close> is \<open>os.getenv('IPN_SECRET_KEY')\<close>: \<open>None\<close> when unset, and then
  \<open>.encode()\<close> raises AttributeError. The \<open>except Exception\<close> clause turns every
  error into \<open>False\<close>.
\<close>

definition verify_ipn_signature_try :: "hmac_fun \<Rightarrow> unicode option \<Rightarrow> unicode \<Rightarrow> string \<Rightarrow> py_error + bool" where
  "verify_ipn_signature_try hmac_sha512 secret data signature =
     (case secret of
        None \<Rightarrow> Inl AttributeError
      | Some key \<Rightarrow>
          (case encode key of
             Inl e \<Rightarrow> Inl e
           | Inr secret_key \<Rightarrow>
               (case encode data of
                  Inl e \<Rightarrow> Inl e
                | Inr message \<Rightarrow>
                    let expected_signature = hexdigest (hmac_sha512 secret_key message)
                    in compare_digest signature expected_signature)))"

definition verify_ipn_signature :: "hmac_fun \<Rightarrow> unicode option \<Rightarrow> unicode \<Rightarrow> string \<Rightarrow> bool" where
  "verify_ipn_signature hmac_sha512 secret data signature =
     (case verify_ipn_signature_try hmac_sha512 secret data signature of
        Inl e \<Rightarrow> False
      | Inr b \<Rightarrow> b)"

section \<open>Payment webhook (webhook\_server.py)\<close>

text \<open>The environment variables read at start-up.\<close>

record config =
  IPN_SECRET_KEY :: "unicode option"
  BEGINNER_CHANNEL_ID :: "string option"
  MID_CHANNEL_ID :: "string option"
  COMPLETE_CHANNEL_ID :: "string option"

text \<open>\<open>plans[plan]['channel']\<close>: \<open>None\<close> is the KeyError of an unknown plan.\<close>

definition plans_channel :: "string \<Rightarrow> string option" where
  "plans_channel plan =
     (if plan = ''beginner'' then Some ''beginner''
      else if plan = ''mid'' then Some ''mid''
      else if plan = ''complete'' then Some ''complete''
      else None)"

text \<open>\<open>channels[key]\<close>: the outer \<open>None\<close> is a KeyError, the inner one an unset variable.\<close>

definition channels :: "config \<Rightarrow> string \<Rightarrow> string option option" where
  "channels cfg key =
     (if key = ''beginner'' then Some (BEGINNER_CHANNEL_ID cfg)
      else if key = ''mid'' then Some (MID_CHANNEL_ID cfg)
      else if key = ''complete'' then Some (COMPLETE_CHANNEL_ID cfg)
      else None)"

text \<open>
  What the outside world does during one delivery: which external calls raise, and the
  readings of \<open>datetime.now()\<close> that are stored, in call order.
\<close>

record outcome =
  payments_update_raises :: bool
  unban_raises :: bool
  send_message_raises :: bool
  users_update_raises :: bool
  now_updated_at :: timestamp
  now_subscription_end :: timestamp
  now_subscription_start :: timestamp

definition add_user_to_channel :: "config \<Rightarrow> outcome \<Rightarrow> int \<Rightarrow> string \<Rightarrow> system \<Rightarrow> bool \<times> system" where
  "add_user_to_channel cfg io uid plan s =
     (case plans_channel plan of
        None \<Rightarrow> (False, s)
      | Some key \<Rightarrow>
          (case channels cfg key of
             None \<Rightarrow> (False, s)
           | Some None \<Rightarrow> (False, s)
           | Some (Some channel_id) \<Rightarrow>
               if channel_id = [] then (False, s)
               else if unban_raises io then (False, s)
               else
                 let s1 = s\<lparr>bot_calls := bot_calls s @ [UnbanChatMember channel_id uid]\<rparr>
                 in if send_message_raises io then (False, s1)
                    else (True, s1\<lparr>bot_calls := bot_calls s1 @ [SendMessage uid]\<rparr>)))"

definition activate :: "outcome \<Rightarrow> string \<Rightarrow> user \<Rightarrow> user" where
  \<comment> \<open>the \<open>$set\<close> document of \<open>handle_successful_payment\<close>\<close>
  "activate io plan u =
     u\<lparr>subscription_plan := Some plan,
       subscription_start := Some (now_subscription_start io),
       subscription_end := Some (now_subscription_end io + timedelta 30),
       status := Some ''active''\<rparr>"

definition handle_successful_payment :: "config \<Rightarrow> outcome \<Rightarrow> int \<Rightarrow> string \<Rightarrow> system \<Rightarrow> bool \<times> system" where
  "handle_successful_payment cfg io uid plan s =
     (case add_user_to_channel cfg io uid plan s of
        (success, s1) \<Rightarrow>
          if success then
            if users_update_raises io then (False, s1)
            else (True, s1\<lparr>users_collection :=
                             update_one (\<lambda>u. user_id u = uid) (activate io plan)
                               (users_collection s1)\<rparr>)
          else (False, s1))"

text \<open>\<open>str.split(sep)\<close> for a one-character separator.\<close>

fun split :: "char \<Rightarrow> string \<Rightarrow> string list" where
  "split sep [] = [[]]"
| "split sep (c # cs) =
     (if c = sep then [] # split sep cs
      else (case split sep cs of
              [] \<Rightarrow> [[c]]
            | p # ps \<Rightarrow> (c # p) # ps))"

text \<open>
  \<open>int(s)\<close> on a string: surrounding whitespace is dropped, one sign is allowed, the
  rest must be one or more decimal digits (an underscore cannot occur in a part of a
  string split at underscores). \<open>None\<close> is the ValueError. The interpreter's limit on
  the number of digits is not modelled.
\<close>

definition is_space :: "char \<Rightarrow> bool" where
  "is_space c = ((of_char c :: nat) \<in> {9, 10, 11, 12, 13, 32, 133, 160})"

definition is_digit :: "char \<Rightarrow> bool" where
  "is_digit c = (48 \<le> (of_char c :: nat) \<and> (of_char c :: nat) \<le> 57)"

definition strip :: "string \<Rightarrow> string" where
  "strip s = rev (dropWhile is_space (rev (dropWhile is_space s)))"

definition digits_value :: "string \<Rightarrow> int" where
  "digits_value ds = foldl (\<lambda>a c. 10 * a + (int (of_char c) - 48)) 0 ds"

definition unsigned_int :: "string \<Rightarrow> int option" where
  "unsigned_int ds = (if ds \<noteq> [] \<and> list_all is_digit ds then Some (digits_value ds) else None)"

definition python_int :: "string \<Rightarrow> int option" where
  "python_int s =
     (case strip s of
        [] \<Rightarrow> None
      | c # cs \<Rightarrow>
          if c = CHR ''-'' then map_option uminus (unsigned_int cs)
          else if c = CHR ''+'' then unsigned_int cs
          else unsigned_int (c # cs))"

text \<open>A JSON response: the single key and value of the body, and the status code.\<close>

datatype response = Response string string nat

definition parse_order_id :: "string \<Rightarrow> response + (int \<times> string)" where
  "parse_order_id order_id =
     (let parts = split CHR ''_'' order_id
      in if length parts \<ge> 4 \<and> parts ! 0 = ''hack'' \<and> parts ! 1 = ''academy'' then
           (case python_int (parts ! 2) of
              None \<Rightarrow> Inl (Response ''error'' ''Error parsing order_id'' 400)
            | Some uid \<Rightarrow> Inr (uid, parts ! 3))
         else Inl (Response ''error'' ''Invalid order_id format'' 400))"

text \<open>
  The request: the \<open>x-nowpayments-sig\<close> header, the raw bytes of the body, and what
  \<open>request.get_json()\<close> returns (\<open>None\<close> when it raises or the body is not a JSON
  object, which both end in the outer handler). JSON parsing itself is not modelled.
\<close>

record request =
  sig_header :: "string option"
  raw_body :: bytes
  get_json :: "(string \<times> jval) list option"

definition set_payment :: "outcome \<Rightarrow> (string \<times> jval) list \<Rightarrow> payment \<Rightarrow> payment" where
  \<comment> \<open>the \<open>$set\<close> document of \<open>payment_webhook\<close>\<close>
  "set_payment io wd p =
     p\<lparr>pay_status := dict_get wd ''payment_status'',
       webhook_data := Some wd,
       updated_at := Some (now_updated_at io)\<rparr>"

definition payment_webhook :: "hmac_fun \<Rightarrow> config \<Rightarrow> outcome \<Rightarrow> request \<Rightarrow> system \<Rightarrow> response \<times> system" where
  "payment_webhook hmac_sha512 cfg io req s =
     (case sig_header req of
        None \<Rightarrow> (Response ''error'' ''No signature'' 400, s)
      | Some signature \<Rightarrow>
          if signature = [] then (Response ''error'' ''No signature'' 400, s)
          else if \<not> verify_ipn_signature hmac_sha512 (IPN_SECRET_KEY cfg) (get_data_as_text (raw_body req)) signature
          then (Response ''error'' ''Invalid signature'' 400, s)
          else
            (case get_json req of
               None \<Rightarrow> (Response ''error'' ''Internal server error'' 500, s)
             | Some wd \<Rightarrow>
                 let payment_status = dict_get wd ''payment_status'';
                     order_id = dict_get wd ''order_id''
                 in if \<not> truthy order_id then (Response ''error'' ''No order_id'' 400, s)
                    else
                      (case order_id of
                         JStr oid \<Rightarrow>
                           (case parse_order_id oid of
                              Inl r \<Rightarrow> (r, s)
                            | Inr (uid, plan) \<Rightarrow>
                                if payments_update_raises io
                                then (Response ''error'' ''Internal server error'' 500, s)
                                else
                                  let s1 = s\<lparr>payments_collection :=
                                              update_one (\<lambda>p. payment_id p = dict_get wd ''payment_id'')
                                                (set_payment io wd) (payments_collection s)\<rparr>
                                  in if payment_status = JStr ''finished'' \<or> payment_status = JStr ''confirmed''
                                     then (Response ''status'' ''success'' 200,
                                           snd (handle_successful_payment cfg io uid plan s1))
                                     else (Response ''status'' ''success'' 200, s1))
                       | _ \<Rightarrow> (Response ''error'' ''Internal server error'' 500, s))))"

text \<open>
  A stand-in keyed hash, used only to run the model on concrete requests; every theorem
  below is proved for an arbitrary \<open>hmac_sha512\<close>.
\<close>

definition demo_hmac :: hmac_fun where
  "demo_hmac key msg = [of_nat (length key), of_nat (length msg)]"

section \<open>Derived notions used in the statements\<close>

text \<open>
  The checks of \<open>payment_webhook\<close> before its first write (the signature, the JSON
  body, the order identifier), as one function: either the response of the rejecting
  check, or the parsed body with the user id and plan decoded from the order identifier.
\<close>

definition validate :: "hmac_fun \<Rightarrow> config \<Rightarrow> request \<Rightarrow> response + ((string \<times> jval) list \<times> int \<times> string)" where
  "validate hmac_sha512 cfg req =
     (case sig_header req of
        None \<Rightarrow> Inl (Response ''error'' ''No signature'' 400)
      | Some signature \<Rightarrow>
          if signature = [] then Inl (Response ''error'' ''No signature'' 400)
          else if \<not> verify_ipn_signature hmac_sha512 (IPN_SECRET_KEY cfg) (get_data_as_text (raw_body req)) signature
          then Inl (Response ''error'' ''Invalid signature'' 400)
          else
            (case get_json req of
               None \<Rightarrow> Inl (Response ''error'' ''Internal server error'' 500)
             | Some wd \<Rightarrow>
                 (case dict_get wd ''order_id'' of
                    JStr oid \<Rightarrow>
                      if oid = [] then Inl (Response ''error'' ''No order_id'' 400)
                      else (case parse_order_id oid of
                              Inl r \<Rightarrow> Inl r
                            | Inr (uid, plan) \<Rightarrow> Inr (wd, uid, plan))
                  | v \<Rightarrow>
                      if truthy v then Inl (Response ''error'' ''Internal server error'' 500)
                      else Inl (Response ''error'' ''No order_id'' 400))))"

text \<open>The query and the write of lines 164 to 174, on the whole state.\<close>

definition payment_query :: "(string \<times> jval) list \<Rightarrow> payment \<Rightarrow> bool" where
  "payment_query wd p = (payment_id p = dict_get wd ''payment_id'')"

definition update_payment :: "outcome \<Rightarrow> (string \<times> jval) list \<Rightarrow> system \<Rightarrow> system" where
  "update_payment io wd s =
     s\<lparr>payments_collection :=
         update_one (payment_query wd) (set_payment io wd) (payments_collection s)\<rparr>"

definition is_success_status :: "jval \<Rightarrow> bool" where
  \<comment> \<open>\<open>payment_status in ['finished', 'confirmed']\<close>\<close>
  "is_success_status v = (v = JStr ''finished'' \<or> v = JStr ''confirmed'')"



text \<open>An outcome with other clock readings.\<close>

definition at_time :: "timestamp \<times> timestamp \<times> timestamp \<Rightarrow> outcome \<Rightarrow> outcome" where
  "at_time t io =
     (case t of (a, b, c) \<Rightarrow>
        io\<lparr>now_updated_at := a, now_subscription_end := b, now_subscription_start := c\<rparr>)"




section \<open>The scenario of the specification, as data\<close>

text \<open>
  User 42 chose plan \<open>mid\<close>; payment \<open>p-100\<close> is waiting; the gateway delivers a
  confirmation signed under the key \<open>k\<close> (code point 107), over the bytes of its body.
\<close>

definition scenario_config :: config where
  "scenario_config =
     \<lparr>IPN_SECRET_KEY = Some [107], BEGINNER_CHANNEL_ID = Some ''-1001'',
      MID_CHANNEL_ID = Some ''-1002'', COMPLETE_CHANNEL_ID = Some ''-1003''\<rparr>"

definition scenario_body :: "string \<Rightarrow> string \<Rightarrow> (string \<times> jval) list" where
  "scenario_body st oid =
     [(''payment_id'', JStr ''p-100''), (''payment_status'', JStr st), (''order_id'', JStr oid)]"

definition scenario_order_id :: string where
  "scenario_order_id = ''hack_academy_42_mid_171700000''"

definition quoted :: "string \<Rightarrow> string" where
  "quoted s = CHR 0x22 # s @ [CHR 0x22]"

definition scenario_raw :: "string \<Rightarrow> string \<Rightarrow> string" where
  "scenario_raw st oid =
     ''{'' @ quoted ''payment_id'' @ '':'' @ quoted ''p-100'' @ '','' @
     quoted ''payment_status'' @ '':'' @ quoted st @ '','' @
     quoted ''order_id'' @ '':'' @ quoted oid @ ''}''"

definition ascii_bytes :: "string \<Rightarrow> bytes" where
  "ascii_bytes s = map (\<lambda>c. of_nat (of_char c)) s"

definition scenario_request :: "string \<Rightarrow> string \<Rightarrow> request" where
  "scenario_request st oid =
     \<lparr>sig_header = Some (hexdigest (demo_hmac (ascii_bytes ''k'') (ascii_bytes (scenario_raw st oid)))),
      raw_body = ascii_bytes (scenario_raw st oid),
      get_json = Some (scenario_body st oid)\<rparr>"

definition scenario_outcome :: outcome where
  "scenario_outcome =
     \<lparr>payments_update_raises = False, unban_raises = False, send_message_raises = False,
      users_update_raises = False,
      now_updated_at = 100, now_subscription_end = 101, now_subscription_start = 102\<rparr>"

definition scenario_user :: user where
  "scenario_user =
     \<lparr>user_id = 42, username = Some ''bob'', first_seen = Some 1, last_interaction = Some 1,
      subscription_plan = None, subscription_start = None, subscription_end = None,
      status = None, revoked_at = None, expired_at = None\<rparr>"

definition scenario_payment :: payment where
  "scenario_payment =
     \<lparr>payment_id = JStr ''p-100'', pay_user_id = 42, pay_plan = ''mid'',
      pay_status = JStr ''waiting'', created_at = 5, payment_url = ''https://pay'',
      webhook_data = None, updated_at = None\<rparr>"

definition scenario_system :: system where
  "scenario_system =
     \<lparr>users_collection = [scenario_user], payments_collection = [scenario_payment],
      bot_calls = [], scheduler_jobs = []\<rparr>"

text \<open>
  Three users for the admin operations: one active with an end date of 500 and a
  scheduled expiry job, one active until 9000, one who never subscribed.
\<close>

definition admin_system :: system where
  "admin_system =
     \<lparr>users_collection =
        [scenario_user\<lparr>subscription_plan := Some ''mid'', subscription_start := Some 10,
                       subscription_end := Some 500, status := Some ''active''\<rparr>,
         scenario_user\<lparr>user_id := 43, subscription_plan := Some ''beginner'',
                       subscription_start := Some 10, subscription_end := Some 9000,
                       status := Some ''active''\<rparr>,
         scenario_user\<lparr>user_id := 44\<rparr>],
      payments_collection = [],
      bot_calls = [],
      scheduler_jobs = [(''expiry_42_mid'', 500, 42, ''mid'')]\<rparr>"

section \<open>Facts about the collection operations\<close>

lemma update_one_no_match: "find_one q ds = None \<Longrightarrow> update_one q f ds = ds"
  by (induction ds) (auto simp: find_one_def split: if_splits)

lemma find_one_update_one:
  "find_one q ds = Some d \<Longrightarrow> q (f d) \<Longrightarrow> find_one q (update_one q f ds) = Some (f d)"
  by (induction ds) (auto simp: find_one_def split: if_splits)



section \<open>Facts about the webhook handler\<close>













lemma parse_order_id_Inl:
  "parse_order_id oid = Inl r \<Longrightarrow>
     r = Response ''error'' ''Error parsing order_id'' 400 \<or> r = Response ''error'' ''Invalid order_id format'' 400"
  by (auto simp: parse_order_id_def Let_def split: if_splits option.splits)

lemma validate_Inl:
  "validate H cfg req = Inl r \<Longrightarrow>
     \<exists>msg code. r = Response ''error'' msg code \<and> (code = 400 \<or> code = 500)"
  by (auto simp: validate_def split: option.splits if_splits jval.splits sum.splits dest!: parse_order_id_Inl)

lemma validate_Inl_not_success:
  "validate H cfg req = Inl r \<Longrightarrow> r \<noteq> Response ''status'' ''success'' 200"
  by (auto dest!: validate_Inl)

lemma validate_Inr:
  "validate H cfg req = Inr (wd, uid, plan) \<Longrightarrow>
     get_json req = Some wd \<and>
     (\<exists>sg oid. sig_header req = Some sg \<and> sg \<noteq> []
        \<and> verify_ipn_signature H (IPN_SECRET_KEY cfg) (get_data_as_text (raw_body req)) sg
        \<and> dict_get wd ''order_id'' = JStr oid \<and> parse_order_id oid = Inr (uid, plan))"
  by (auto simp: validate_def split: option.splits if_splits jval.splits sum.splits)

lemma payment_webhook_eq:
  "payment_webhook H cfg io req s =
     (case validate H cfg req of
        Inl r \<Rightarrow> (r, s)
      | Inr (wd, uid, plan) \<Rightarrow>
          if payments_update_raises io then (Response ''error'' ''Internal server error'' 500, s)
          else (Response ''status'' ''success'' 200,
                if is_success_status (dict_get wd ''payment_status'')
                then snd (handle_successful_payment cfg io uid plan (update_payment io wd s))
                else update_payment io wd s))"
  by (auto simp: payment_webhook_def validate_def update_payment_def payment_query_def [abs_def] is_success_status_def Let_def
      split: option.splits jval.splits sum.splits)

lemma accepted_iff:
  "fst (payment_webhook H cfg io req s) = Response ''status'' ''success'' 200 \<longleftrightarrow>
     (\<exists>wd uid plan. validate H cfg req = Inr (wd, uid, plan)) \<and> \<not> payments_update_raises io"
  by (auto simp: payment_webhook_eq split: sum.splits dest!: validate_Inl_not_success)

lemma add_user_frame:
  "users_collection (snd (add_user_to_channel cfg io uid plan s)) = users_collection s"
  "payments_collection (snd (add_user_to_channel cfg io uid plan s)) = payments_collection s"
  "scheduler_jobs (snd (add_user_to_channel cfg io uid plan s)) = scheduler_jobs s"
  by (auto simp: add_user_to_channel_def Let_def split: option.splits)

lemma hsp_payments:
  "payments_collection (snd (handle_successful_payment cfg io uid plan s)) = payments_collection s"
  "scheduler_jobs (snd (handle_successful_payment cfg io uid plan s)) = scheduler_jobs s"
  using add_user_frame [of cfg io uid plan s]
  by (auto simp: handle_successful_payment_def split: prod.splits)

lemma hsp_users:
  "users_collection (snd (handle_successful_payment cfg io uid plan s)) =
     (if fst (handle_successful_payment cfg io uid plan s)
      then update_one (\<lambda>u. user_id u = uid) (activate io plan) (users_collection s)
      else users_collection s)"
  using add_user_frame [of cfg io uid plan s]
  by (auto simp: handle_successful_payment_def split: prod.splits)


lemma update_payment_frame:
  "users_collection (update_payment io wd s) = users_collection s"
  "bot_calls (update_payment io wd s) = bot_calls s"
  "scheduler_jobs (update_payment io wd s) = scheduler_jobs s"
  by (simp_all add: update_payment_def)

lemma payment_query_set: "payment_query wd p \<Longrightarrow> payment_query wd (set_payment io wd' p)"
  by (simp add: payment_query_def set_payment_def)











section \<open>The scenario, evaluated\<close>

lemma scenario_validates:
  "validate demo_hmac scenario_config (scenario_request ''confirmed'' scenario_order_id)
     = Inr (scenario_body ''confirmed'' scenario_order_id, 42, ''mid'')"
  by code_simp

lemma scenario_accepted:
  "fst (payment_webhook demo_hmac scenario_config scenario_outcome
          (scenario_request ''confirmed'' scenario_order_id) scenario_system)
     = Response ''status'' ''success'' 200"
  by code_simp

section \<open>Webhook handler: the claims\<close>







text \<open>
  Claim C5, as amended. The payment status is the last one written: every accepted
  webhook event sets the status of the payment record with its payment id to the event's
  \<open>payment_status\<close>, whatever the record's previous status and whatever the new one.
\<close>

theorem payment_status_last_write_wins:
  assumes acc: "fst (payment_webhook H cfg io req s) = Response ''status'' ''success'' 200"
    and body: "get_json req = Some wd"
    and p: "find_one (payment_query wd) (payments_collection s) = Some p"
  shows "map_option pay_status
           (find_one (payment_query wd) (payments_collection (snd (payment_webhook H cfg io req s))))
         = Some (dict_get wd ''payment_status'')"
proof -
  from acc obtain wd' uid plan where v: "validate H cfg req = Inr (wd', uid, plan)"
    and ok: "\<not> payments_update_raises io"
    by (auto simp: accepted_iff)
  from validate_Inr [OF v] body have wd: "wd' = wd" by simp
  have pays: "payments_collection (snd (payment_webhook H cfg io req s))
                = update_one (payment_query wd) (set_payment io wd) (payments_collection s)"
    using v ok wd by (simp add: payment_webhook_eq hsp_payments) (simp add: update_payment_def)
  from p have "payment_query wd p"
    by (auto simp: find_one_def find_Some_iff)
  then have "payment_query wd (set_payment io wd p)"
    by (rule payment_query_set)
  with p have "find_one (payment_query wd) (update_one (payment_query wd) (set_payment io wd) (payments_collection s))
                 = Some (set_payment io wd p)"
    by (rule find_one_update_one)
  then show ?thesis
    by (simp add: pays set_payment_def)
qed

text \<open>The amended C5 at the scenario.\<close>

theorem payment_status_last_write_wins_witness:
  "map_option pay_status
     (find_one (payment_query (scenario_body ''confirmed'' scenario_order_id))
        (payments_collection (snd (payment_webhook demo_hmac scenario_config scenario_outcome
           (scenario_request ''confirmed'' scenario_order_id) scenario_system))))
   = Some (dict_get (scenario_body ''confirmed'' scenario_order_id) ''payment_status'')"
proof -
  have body: "get_json (scenario_request ''confirmed'' scenario_order_id)
                = Some (scenario_body ''confirmed'' scenario_order_id)"
    by (simp add: scenario_request_def)
  have p: "find_one (payment_query (scenario_body ''confirmed'' scenario_order_id))
             (payments_collection scenario_system) = Some scenario_payment"
    by code_simp
  show ?thesis
    using payment_status_last_write_wins [OF scenario_accepted body p] .
qed

text \<open>
  Claim C5, as stated, at the scenario: a confirmed payment is set to failed by a later
  event, and a waiting payment is set to the status \<open>confirming\<close>, which is not
  terminal.
\<close>

theorem payment_status_counterexample:
  "map pay_status (payments_collection (snd (payment_webhook demo_hmac scenario_config scenario_outcome
       (scenario_request ''confirmed'' scenario_order_id) scenario_system))) = [JStr ''confirmed'']
   \<and> map pay_status (payments_collection (snd (payment_webhook demo_hmac scenario_config
       (at_time (200, 201, 202) scenario_outcome) (scenario_request ''failed'' scenario_order_id)
       (snd (payment_webhook demo_hmac scenario_config scenario_outcome
          (scenario_request ''confirmed'' scenario_order_id) scenario_system))))) = [JStr ''failed'']
   \<and> map pay_status (payments_collection scenario_system) = [JStr ''waiting'']
   \<and> map pay_status (payments_collection (snd (payment_webhook demo_hmac scenario_config scenario_outcome
       (scenario_request ''confirming'' scenario_order_id) scenario_system))) = [JStr ''confirming'']"
  by code_simp




text \<open>
  Claim C2, as amended. For every accepted event with status confirmed or finished whose
  channel grant fails, processing ends with the payment record set to the event's
  status, the user records unchanged, no job scheduled, and the grant attempted once at
  most (one unban call when only the welcome message failed): nothing is retried or
  queued.
\<close>

theorem grant_failure_no_retry:
  assumes v: "validate H cfg req = Inr (wd, uid, plan)"
    and st: "is_success_status (dict_get wd ''payment_status'')"
    and ok: "\<not> payments_update_raises io"
    and fail: "\<not> fst (add_user_to_channel cfg io uid plan (update_payment io wd s))"
  shows "payments_collection (snd (payment_webhook H cfg io req s))
           = update_one (payment_query wd) (set_payment io wd) (payments_collection s)
       \<and> users_collection (snd (payment_webhook H cfg io req s)) = users_collection s
       \<and> scheduler_jobs (snd (payment_webhook H cfg io req s)) = scheduler_jobs s
       \<and> (bot_calls (snd (payment_webhook H cfg io req s)) = bot_calls s
          \<or> (\<exists>ch. bot_calls (snd (payment_webhook H cfg io req s)) = bot_calls s @ [UnbanChatMember ch uid]))"
proof -
  let ?sA = "update_payment io wd s"
  obtain b s2 where a: "add_user_to_channel cfg io uid plan ?sA = (b, s2)"
    by (cases "add_user_to_channel cfg io uid plan ?sA")
  with fail have "\<not> b" by simp
  with a v st ok
  have s': "snd (payment_webhook H cfg io req s) = snd (add_user_to_channel cfg io uid plan ?sA)"
    by (simp add: payment_webhook_eq handle_successful_payment_def)
  have calls: "bot_calls (snd (add_user_to_channel cfg io uid plan ?sA)) = bot_calls ?sA
     \<or> (\<exists>ch. bot_calls (snd (add_user_to_channel cfg io uid plan ?sA)) = bot_calls ?sA @ [UnbanChatMember ch uid])"
    using fail by (auto simp: add_user_to_channel_def Let_def split: option.splits if_splits)
  show ?thesis
    using calls
    by (simp add: s' add_user_frame update_payment_frame) (simp add: update_payment_def)
qed

text \<open>The amended C2 at the scenario when sending the welcome message fails.\<close>

theorem grant_failure_no_retry_witness:
  "validate demo_hmac scenario_config (scenario_request ''confirmed'' scenario_order_id)
     = Inr (scenario_body ''confirmed'' scenario_order_id, 42, ''mid'')
   \<and> is_success_status (dict_get (scenario_body ''confirmed'' scenario_order_id) ''payment_status'')
   \<and> \<not> payments_update_raises (scenario_outcome\<lparr>send_message_raises := True\<rparr>)
   \<and> \<not> fst (add_user_to_channel scenario_config (scenario_outcome\<lparr>send_message_raises := True\<rparr>) 42 ''mid''
              (update_payment (scenario_outcome\<lparr>send_message_raises := True\<rparr>)
                 (scenario_body ''confirmed'' scenario_order_id) scenario_system))
   \<and> users_collection (snd (payment_webhook demo_hmac scenario_config
         (scenario_outcome\<lparr>send_message_raises := True\<rparr>)
         (scenario_request ''confirmed'' scenario_order_id) scenario_system))
       = users_collection scenario_system
   \<and> scheduler_jobs (snd (payment_webhook demo_hmac scenario_config
         (scenario_outcome\<lparr>send_message_raises := True\<rparr>)
         (scenario_request ''confirmed'' scenario_order_id) scenario_system))
       = scheduler_jobs scenario_system"
proof -
  let ?io = "scenario_outcome\<lparr>send_message_raises := True\<rparr>"
  let ?wd = "scenario_body ''confirmed'' scenario_order_id"
  have st: "is_success_status (dict_get ?wd ''payment_status'')"
    by code_simp
  have ok: "\<not> payments_update_raises ?io"
    by code_simp
  have fail: "\<not> fst (add_user_to_channel scenario_config ?io 42 ''mid'' (update_payment ?io ?wd scenario_system))"
    by code_simp
  show ?thesis
    using grant_failure_no_retry [OF scenario_validates st ok fail] scenario_validates st ok fail
    by blast
qed

text \<open>
  Claim C2, as stated, at the scenario when the unban call raises: the response is
  success, the payment is confirmed, user 42 is not active, and neither a Telegram call
  nor a job is left that would try again.
\<close>

theorem grant_failure_counterexample:
  "fst (payment_webhook demo_hmac scenario_config (scenario_outcome\<lparr>unban_raises := True\<rparr>)
          (scenario_request ''confirmed'' scenario_order_id) scenario_system)
     = Response ''status'' ''success'' 200
   \<and> map pay_status (payments_collection (snd (payment_webhook demo_hmac scenario_config
          (scenario_outcome\<lparr>unban_raises := True\<rparr>)
          (scenario_request ''confirmed'' scenario_order_id) scenario_system))) = [JStr ''confirmed'']
   \<and> map status (users_collection (snd (payment_webhook demo_hmac scenario_config
          (scenario_outcome\<lparr>unban_raises := True\<rparr>)
          (scenario_request ''confirmed'' scenario_order_id) scenario_system))) = [None]
   \<and> bot_calls (snd (payment_webhook demo_hmac scenario_config
          (scenario_outcome\<lparr>unban_raises := True\<rparr>)
          (scenario_request ''confirmed'' scenario_order_id) scenario_system)) = []
   \<and> scheduler_jobs (snd (payment_webhook demo_hmac scenario_config
          (scenario_outcome\<lparr>unban_raises := True\<rparr>)
          (scenario_request ''confirmed'' scenario_order_id) scenario_system)) = []"
  by code_simp

text \<open>
  Claim C9. For every accepted event with status confirmed or finished, when
  \<open>handle_successful_payment\<close> fails (the channel grant fails or the user update
  raises), the handler still responds 200 with status success, the payment record with
  that payment id has been set to the event's status, payload and time, and the user
  records are unchanged.
\<close>

theorem failed_activation_acknowledged:
  assumes v: "validate H cfg req = Inr (wd, uid, plan)"
    and st: "is_success_status (dict_get wd ''payment_status'')"
    and ok: "\<not> payments_update_raises io"
    and fail: "\<not> fst (handle_successful_payment cfg io uid plan (update_payment io wd s))"
  shows "fst (payment_webhook H cfg io req s) = Response ''status'' ''success'' 200
       \<and> (\<forall>p. find_one (payment_query wd) (payments_collection s) = Some p \<longrightarrow>
              find_one (payment_query wd) (payments_collection (snd (payment_webhook H cfg io req s)))
                = Some (p\<lparr>pay_status := dict_get wd ''payment_status'', webhook_data := Some wd,
                          updated_at := Some (now_updated_at io)\<rparr>))
       \<and> users_collection (snd (payment_webhook H cfg io req s)) = users_collection s"
proof -
  have pays: "payments_collection (snd (payment_webhook H cfg io req s))
                = update_one (payment_query wd) (set_payment io wd) (payments_collection s)"
    using v st ok by (simp add: payment_webhook_eq hsp_payments) (simp add: update_payment_def)
  have found: "find_one (payment_query wd) (update_one (payment_query wd) (set_payment io wd) (payments_collection s))
                 = Some (set_payment io wd p)"
    if "find_one (payment_query wd) (payments_collection s) = Some p" for p
  proof -
    from that have "payment_query wd p"
      by (auto simp: find_one_def find_Some_iff)
    then have "payment_query wd (set_payment io wd p)"
      by (rule payment_query_set)
    with that show ?thesis
      by (rule find_one_update_one)
  qed
  have users: "users_collection (snd (payment_webhook H cfg io req s)) = users_collection s"
    using v st ok fail by (simp add: payment_webhook_eq hsp_users update_payment_frame)
  have resp: "fst (payment_webhook H cfg io req s) = Response ''status'' ''success'' 200"
    using v ok by (simp add: payment_webhook_eq)
  show ?thesis
    using resp users found by (simp add: pays set_payment_def)
qed

text \<open>The statement of C9 at the scenario when the update of the user raises.\<close>

theorem failed_activation_acknowledged_witness:
  "validate demo_hmac scenario_config (scenario_request ''confirmed'' scenario_order_id)
     = Inr (scenario_body ''confirmed'' scenario_order_id, 42, ''mid'')
   \<and> is_success_status (dict_get (scenario_body ''confirmed'' scenario_order_id) ''payment_status'')
   \<and> \<not> payments_update_raises (scenario_outcome\<lparr>users_update_raises := True\<rparr>)
   \<and> \<not> fst (handle_successful_payment scenario_config (scenario_outcome\<lparr>users_update_raises := True\<rparr>) 42 ''mid''
              (update_payment (scenario_outcome\<lparr>users_update_raises := True\<rparr>)
                 (scenario_body ''confirmed'' scenario_order_id) scenario_system))
   \<and> find_one (payment_query (scenario_body ''confirmed'' scenario_order_id)) (payments_collection scenario_system)
       = Some scenario_payment
   \<and> fst (payment_webhook demo_hmac scenario_config (scenario_outcome\<lparr>users_update_raises := True\<rparr>)
          (scenario_request ''confirmed'' scenario_order_id) scenario_system)
       = Response ''status'' ''success'' 200
   \<and> find_one (payment_query (scenario_body ''confirmed'' scenario_order_id))
        (payments_collection (snd (payment_webhook demo_hmac scenario_config
           (scenario_outcome\<lparr>users_update_raises := True\<rparr>)
           (scenario_request ''confirmed'' scenario_order_id) scenario_system)))
       = Some (scenario_payment\<lparr>pay_status := dict_get (scenario_body ''confirmed'' scenario_order_id) ''payment_status'',
                                webhook_data := Some (scenario_body ''confirmed'' scenario_order_id),
                                updated_at := Some (now_updated_at (scenario_outcome\<lparr>users_update_raises := True\<rparr>))\<rparr>)
   \<and> users_collection (snd (payment_webhook demo_hmac scenario_config
         (scenario_outcome\<lparr>users_update_raises := True\<rparr>)
         (scenario_request ''confirmed'' scenario_order_id) scenario_system))
       = users_collection scenario_system"
proof -
  let ?io = "scenario_outcome\<lparr>users_update_raises := True\<rparr>"
  let ?wd = "scenario_body ''confirmed'' scenario_order_id"
  have st: "is_success_status (dict_get ?wd ''payment_status'')"
    by code_simp
  have ok: "\<not> payments_update_raises ?io"
    by code_simp
  have fail: "\<not> fst (handle_successful_payment scenario_config ?io 42 ''mid'' (update_payment ?io ?wd scenario_system))"
    by code_simp
  have p: "find_one (payment_query ?wd) (payments_collection scenario_system) = Some scenario_payment"
    by code_simp
  show ?thesis
    using failed_activation_acknowledged [OF scenario_validates st ok fail] scenario_validates st ok fail p
    by blast
qed

text \<open>
  Claim C10. For every accepted event with status confirmed or finished, when no payment
  record has the event's payment id, the payments are left as they are and the handler
  still grants channel membership (the unban call and the welcome message) and activates
  the user for 30 days, provided the plan has a configured channel and the Telegram and
  database calls succeed. No check depends on the payments collection.
\<close>

theorem activation_without_payment_record:
  assumes v: "validate H cfg req = Inr (wd, uid, plan)"
    and st: "is_success_status (dict_get wd ''payment_status'')"
    and nopay: "find_one (payment_query wd) (payments_collection s) = None"
    and io: "\<not> payments_update_raises io" "\<not> unban_raises io" "\<not> send_message_raises io"
      "\<not> users_update_raises io"
    and ch: "plans_channel plan = Some key" "channels cfg key = Some (Some channel_id)" "channel_id \<noteq> []"
    and usr: "find_one (\<lambda>u. user_id u = uid) (users_collection s) = Some usr"
  shows "fst (payment_webhook H cfg io req s) = Response ''status'' ''success'' 200
       \<and> payments_collection (snd (payment_webhook H cfg io req s)) = payments_collection s
       \<and> bot_calls (snd (payment_webhook H cfg io req s))
           = bot_calls s @ [UnbanChatMember channel_id uid, SendMessage uid]
       \<and> find_one (\<lambda>u. user_id u = uid) (users_collection (snd (payment_webhook H cfg io req s)))
           = Some (usr\<lparr>subscription_plan := Some plan,
                        subscription_start := Some (now_subscription_start io),
                        subscription_end := Some (now_subscription_end io + 30 * 86400000000),
                        status := Some ''active''\<rparr>)"
proof -
  have same: "update_payment io wd s = s"
    using nopay by (simp add: update_payment_def update_one_no_match)
  have add: "add_user_to_channel cfg io uid plan s
               = (True, s\<lparr>bot_calls := bot_calls s @ [UnbanChatMember channel_id uid, SendMessage uid]\<rparr>)"
    using io ch by (simp add: add_user_to_channel_def Let_def)
  have s': "snd (payment_webhook H cfg io req s)
              = s\<lparr>bot_calls := bot_calls s @ [UnbanChatMember channel_id uid, SendMessage uid],
                  users_collection := update_one (\<lambda>u. user_id u = uid) (activate io plan) (users_collection s)\<rparr>"
    using v st io by (simp add: payment_webhook_eq same handle_successful_payment_def add)
  from usr have uid: "user_id usr = uid"
    by (auto simp: find_one_def find_Some_iff)
  then have "user_id (activate io plan usr) = uid"
    by (simp add: activate_def)
  with usr have "find_one (\<lambda>u. user_id u = uid) (update_one (\<lambda>u. user_id u = uid) (activate io plan) (users_collection s))
                   = Some (activate io plan usr)"
    by (simp add: find_one_update_one)
  moreover have "fst (payment_webhook H cfg io req s) = Response ''status'' ''success'' 200"
    using v io by (simp add: payment_webhook_eq)
  ultimately show ?thesis
    by (simp add: s' activate_def timedelta_def)
qed

text \<open>The statement of C10 at the scenario with an empty payments collection.\<close>

theorem activation_without_payment_record_witness:
  "find_one (payment_query (scenario_body ''confirmed'' scenario_order_id))
      (payments_collection (scenario_system\<lparr>payments_collection := []\<rparr>)) = None
   \<and> fst (payment_webhook demo_hmac scenario_config scenario_outcome
          (scenario_request ''confirmed'' scenario_order_id) (scenario_system\<lparr>payments_collection := []\<rparr>))
       = Response ''status'' ''success'' 200
   \<and> payments_collection (snd (payment_webhook demo_hmac scenario_config scenario_outcome
          (scenario_request ''confirmed'' scenario_order_id) (scenario_system\<lparr>payments_collection := []\<rparr>)))
       = payments_collection (scenario_system\<lparr>payments_collection := []\<rparr>)
   \<and> bot_calls (snd (payment_webhook demo_hmac scenario_config scenario_outcome
          (scenario_request ''confirmed'' scenario_order_id) (scenario_system\<lparr>payments_collection := []\<rparr>)))
       = bot_calls (scenario_system\<lparr>payments_collection := []\<rparr>) @ [UnbanChatMember ''-1002'' 42, SendMessage 42]
   \<and> find_one (\<lambda>u. user_id u = 42) (users_collection (snd (payment_webhook demo_hmac scenario_config scenario_outcome
          (scenario_request ''confirmed'' scenario_order_id) (scenario_system\<lparr>payments_collection := []\<rparr>))))
       = Some (scenario_user\<lparr>subscription_plan := Some ''mid'',
                        subscription_start := Some (now_subscription_start scenario_outcome),
                        subscription_end := Some (now_subscription_end scenario_outcome + 30 * 86400000000),
                        status := Some ''active''\<rparr>)"
proof -
  let ?s = "scenario_system\<lparr>payments_collection := []\<rparr>"
  let ?wd = "scenario_body ''confirmed'' scenario_order_id"
  have st: "is_success_status (dict_get ?wd ''payment_status'')"
    by code_simp
  have nopay: "find_one (payment_query ?wd) (payments_collection ?s) = None"
    by (simp add: find_one_def)
  have io: "\<not> payments_update_raises scenario_outcome" "\<not> unban_raises scenario_outcome"
    "\<not> send_message_raises scenario_outcome" "\<not> users_update_raises scenario_outcome"
    by (simp_all add: scenario_outcome_def)
  have ch: "plans_channel ''mid'' = Some ''mid''" "channels scenario_config ''mid'' = Some (Some ''-1002'')"
    "''-1002'' \<noteq> []"
    by (simp_all add: plans_channel_def channels_def scenario_config_def)
  have usr: "find_one (\<lambda>u. user_id u = 42) (users_collection ?s) = Some scenario_user"
    by (simp add: scenario_system_def find_one_def scenario_user_def)
  show ?thesis
    using activation_without_payment_record [OF scenario_validates st nopay io ch usr] nopay
    by blast
qed

section \<open>Admin operations: the claims\<close>

text \<open>
  Claim C7, as amended. For every existing user and every number of days \<open>d\<close> for which
  the new end date is a date Python can represent (\<open>d\<close> is at most 999999999 either way,
  and the current end, or now when the record has none, plus \<open>d\<close> days lies between
  \<open>datetime.min\<close> and \<open>datetime.max\<close>), \<open>extend_subscription\<close> sets
  \<open>subscription_end\<close> to that date and the status to active. "Existing" means that the
  lookup by user id finds the record \<open>usr\<close>; the record found afterwards is \<open>usr\<close> with
  exactly these two fields rewritten.
\<close>

theorem extend_subscription_sets_end:
  assumes found: "find_one (\<lambda>u. user_id u = uid) (users_collection s) = Some usr"
    and days: "\<bar>d\<bar> \<le> 999999999"
    and lower: "0 \<le> (case subscription_end usr of Some e \<Rightarrow> e | None \<Rightarrow> now) + d * 86400000000"
    and upper: "(case subscription_end usr of Some e \<Rightarrow> e | None \<Rightarrow> now) + d * 86400000000
                  \<le> datetime_max"
  shows "\<exists>s'. extend_subscription now uid d s = Inr s'
           \<and> find_one (\<lambda>u. user_id u = uid) (users_collection s') =
               Some (usr\<lparr>subscription_end :=
                            Some ((case subscription_end usr of Some e \<Rightarrow> e | None \<Rightarrow> now)
                                  + d * 86400000000),
                          status := Some ''active''\<rparr>)"
proof -
  from found have uid: "user_id usr = uid"
    by (auto simp: find_one_def find_Some_iff)
  show ?thesis
    using found uid days lower upper
    by (cases "subscription_end usr")
       (simp_all add: extend_subscription_def datetime_add_days_def timedelta_days_def
          timedelta_def find_one_update_one)
qed

text \<open>
  The amended C7 at users 42 (end date 500) and 44 (no end date) of \<open>admin_system\<close>,
  extended by 10 days at time 700.
\<close>

theorem extend_subscription_sets_end_witness:
  "(\<exists>s'. extend_subscription 700 42 10 admin_system = Inr s'
      \<and> find_one (\<lambda>u. user_id u = 42) (users_collection s') =
          Some ((users_collection admin_system ! 0)\<lparr>subscription_end := Some 864000000500,
                                                    status := Some ''active''\<rparr>))
   \<and> (\<exists>s'. extend_subscription 700 44 10 admin_system = Inr s'
      \<and> find_one (\<lambda>u. user_id u = 44) (users_collection s') =
          Some ((users_collection admin_system ! 2)\<lparr>subscription_end := Some 864000000700,
                                                    status := Some ''active''\<rparr>))"
proof -
  have a: "find_one (\<lambda>u. user_id u = 42) (users_collection admin_system)
             = Some (users_collection admin_system ! 0)"
    by (simp add: admin_system_def scenario_user_def find_one_def)
  have b: "find_one (\<lambda>u. user_id u = 44) (users_collection admin_system)
             = Some (users_collection admin_system ! 2)"
    by (simp add: admin_system_def scenario_user_def find_one_def)
  have ea: "subscription_end (users_collection admin_system ! 0) = Some 500"
    and eb: "subscription_end (users_collection admin_system ! 2) = None"
    by (simp_all add: admin_system_def scenario_user_def)
  have d: "\<bar>10::int\<bar> \<le> 999999999"
    by simp
  have la: "0 \<le> (case subscription_end (users_collection admin_system ! 0) of
                    Some e \<Rightarrow> e | None \<Rightarrow> 700) + 10 * 86400000000"
    and ua: "(case subscription_end (users_collection admin_system ! 0) of
                    Some e \<Rightarrow> e | None \<Rightarrow> 700) + 10 * 86400000000 \<le> datetime_max"
    by (simp_all add: ea datetime_max_def)
  have lb: "0 \<le> (case subscription_end (users_collection admin_system ! 2) of
                    Some e \<Rightarrow> e | None \<Rightarrow> 700) + 10 * 86400000000"
    and ub: "(case subscription_end (users_collection admin_system ! 2) of
                    Some e \<Rightarrow> e | None \<Rightarrow> 700) + 10 * 86400000000 \<le> datetime_max"
    by (simp_all add: eb datetime_max_def)
  show ?thesis
    using extend_subscription_sets_end [OF a d la ua]
          extend_subscription_sets_end [OF b d lb ub]
    by (simp add: ea eb)
qed

text \<open>
  Claim C7, as stated, fails where the new end date cannot be represented: 1000000000
  days are more than a \<open>timedelta\<close> holds, and 3000000 days after the first day of 2024
  (for user 44, who has no end date) lie beyond year 9999. The operation raises
  OverflowError before its write, so no end date is set.
\<close>

theorem extend_subscription_counterexample:
  "extend_subscription 700 42 1000000000 admin_system = Inl OverflowError
   \<and> extend_subscription 63839664000000000 44 3000000 admin_system = Inl OverflowError"
  by (simp add: extend_subscription_def admin_system_def scenario_user_def find_one_def
        datetime_add_days_def timedelta_days_def timedelta_def datetime_max_def)

text \<open>
  Claim C8. \<open>cleanup_expired\<close> rewrites exactly the users that were active with a
  \<open>subscription_end\<close> earlier than now: each of them gets status expired and an
  \<open>expired_at\<close> timestamp, every other record is unchanged, and no record is added,
  removed or moved.
\<close>

theorem cleanup_expired_exact:
  "length (users_collection (cleanup_expired now now' s)) = length (users_collection s) \<and>
   (\<forall>i < length (users_collection s).
      users_collection (cleanup_expired now now' s) ! i =
        (if status (users_collection s ! i) = Some ''active''
            \<and> (\<exists>e. subscription_end (users_collection s ! i) = Some e \<and> e < now)
         then (users_collection s ! i)\<lparr>status := Some ''expired'', expired_at := Some now'\<rparr>
         else users_collection s ! i))"
  by (auto simp: cleanup_expired_def update_many_def cleanup_query_def split: option.splits)

theorem cleanup_expired_exact_witness:
  "users_collection (cleanup_expired 1000 1001 admin_system) ! 0 =
     (users_collection admin_system ! 0)\<lparr>status := Some ''expired'', expired_at := Some 1001\<rparr>
   \<and> users_collection (cleanup_expired 1000 1001 admin_system) ! 1 = users_collection admin_system ! 1
   \<and> users_collection (cleanup_expired 1000 1001 admin_system) ! 2 = users_collection admin_system ! 2"
proof -
  note step = cleanup_expired_exact [of 1000 1001 admin_system, THEN conjunct2, rule_format]
  have i0: "0 < length (users_collection admin_system)"
    and i1: "1 < length (users_collection admin_system)"
    and i2: "2 < length (users_collection admin_system)"
    by (simp_all add: admin_system_def)
  have "status (users_collection admin_system ! 0) = Some ''active''"
    "subscription_end (users_collection admin_system ! 0) = Some 500"
    "subscription_end (users_collection admin_system ! 1) = Some 9000"
    "status (users_collection admin_system ! 2) = None"
    by (simp_all add: admin_system_def scenario_user_def)
  with step [OF i0] step [OF i1] step [OF i2] show ?thesis
    by simp
qed

text \<open>
  Claim C6, as amended. For every existing user (active or not), \<open>revoke_access\<close> sets
  the status to revoked and records the revocation timestamp; every other field of that
  record is kept.
\<close>

theorem revoke_access_sets_status:
  assumes "find_one (\<lambda>u. user_id u = uid) (users_collection s) = Some usr"
  shows "find_one (\<lambda>u. user_id u = uid) (users_collection (revoke_access now uid s)) =
           Some (usr\<lparr>status := Some ''revoked'', revoked_at := Some now\<rparr>)"
proof -
  from assms have "user_id usr = uid"
    by (auto simp: find_one_def find_Some_iff)
  with assms show ?thesis
    by (simp add: revoke_access_def find_one_update_one)
qed

theorem revoke_access_sets_status_witness:
  "find_one (\<lambda>u. user_id u = 42) (users_collection (revoke_access 300 42 admin_system)) =
     Some ((users_collection admin_system ! 0)\<lparr>status := Some ''revoked'', revoked_at := Some 300\<rparr>)"
proof -
  have a: "find_one (\<lambda>u. user_id u = 42) (users_collection admin_system)
             = Some (users_collection admin_system ! 0)"
    by (simp add: admin_system_def scenario_user_def find_one_def)
  show ?thesis
    using revoke_access_sets_status [OF a, of 300] .
qed

text \<open>
  Claim C6, as stated, at the active user 42 of \<open>admin_system\<close>, whose expiry job is
  scheduled for time 500: after \<open>revoke_access\<close> at time 300 the status is revoked, but
  no call to the Telegram API was made and the expiry job is still scheduled.
\<close>

theorem revoke_access_counterexample:
  "map status (users_collection (revoke_access 300 42 admin_system))
     = [Some ''revoked'', Some ''active'', None]
   \<and> bot_calls (revoke_access 300 42 admin_system) = []
   \<and> scheduler_jobs (revoke_access 300 42 admin_system) = [(''expiry_42_mid'', 500, 42, ''mid'')]"
  by (simp add: revoke_access_def admin_system_def scenario_user_def)

end
